theory Spec2Isabelle
  imports Complex_Main "HOL-Library.AList"
begin

section \<open>feets.extractors: values, errors and the data channel catalog\<close>

text \<open>
  Floating-point numbers are idealised: a finite value is a real number (no rounding,
  no overflow, one zero), and the three non-finite values of the arithmetic are kept,
  since the library returns them where exact arithmetic is undefined (\<open>1.0 / 0.0\<close> is
  \<open>inf\<close> and \<open>0.0 / 0.0\<close> is \<open>nan\<close>, with a warning and no exception).
\<close>

datatype npfloat = Fin real | PosInf | NegInf | NaN

fun np_negative :: "npfloat \<Rightarrow> npfloat" where
  "np_negative (Fin a) = Fin (- a)"
| "np_negative PosInf = NegInf"
| "np_negative NegInf = PosInf"
| "np_negative NaN = NaN"

fun np_add :: "npfloat \<Rightarrow> npfloat \<Rightarrow> npfloat" where
  "np_add NaN y = NaN"
| "np_add x NaN = NaN"
| "np_add (Fin a) (Fin b) = Fin (a + b)"
| "np_add PosInf NegInf = NaN"
| "np_add NegInf PosInf = NaN"
| "np_add PosInf y = PosInf"
| "np_add NegInf y = NegInf"
| "np_add (Fin a) y = y"

definition np_subtract :: "npfloat \<Rightarrow> npfloat \<Rightarrow> npfloat" where
  "np_subtract x y = np_add x (np_negative y)"

text \<open>The sign of a product or quotient with an infinite operand; a zero counts as positive.\<close>

fun is_negative :: "npfloat \<Rightarrow> bool" where
  "is_negative (Fin a) = (a < 0)"
| "is_negative NegInf = True"
| "is_negative x = False"

definition signed_inf :: "bool \<Rightarrow> npfloat" where
  "signed_inf neg = (if neg then NegInf else PosInf)"

fun np_multiply :: "npfloat \<Rightarrow> npfloat \<Rightarrow> npfloat" where
  "np_multiply NaN y = NaN"
| "np_multiply x NaN = NaN"
| "np_multiply (Fin a) (Fin b) = Fin (a * b)"
| "np_multiply (Fin a) y = (if a = 0 then NaN else signed_inf (is_negative (Fin a) \<noteq> is_negative y))"
| "np_multiply x (Fin b) = (if b = 0 then NaN else signed_inf (is_negative x \<noteq> is_negative (Fin b)))"
| "np_multiply x y = signed_inf (is_negative x \<noteq> is_negative y)"

fun np_divide :: "npfloat \<Rightarrow> npfloat \<Rightarrow> npfloat" where
  "np_divide NaN y = NaN"
| "np_divide x NaN = NaN"
| "np_divide (Fin a) (Fin b) =
     (if b \<noteq> 0 then Fin (a / b) else if a = 0 then NaN else signed_inf (a < 0))"
| "np_divide (Fin a) y = Fin 0"
| "np_divide x (Fin b) = signed_inf (is_negative x \<noteq> is_negative (Fin b))"
| "np_divide x y = NaN"

definition np_sum :: "npfloat list \<Rightarrow> npfloat" where
  "np_sum xs = foldl np_add (Fin 0) xs"

definition np_mean :: "npfloat list \<Rightarrow> npfloat" where
  "np_mean xs = np_divide (np_sum xs) (Fin (real (length xs)))"

text \<open>
  Python values that cross the extractor interface: \<open>None\<close>, a number, or a sequence
  (tuple, list or array). \<open>hasattr(v, "__iter__")\<close> holds for the sequences only.
\<close>

datatype pyval = PyNone | PyNum npfloat | PySeq "pyval list"

fun has_iter :: "pyval \<Rightarrow> bool" where
  "has_iter (PySeq _) = True"
| "has_iter _ = False"

text \<open>
  The exceptions of the module. \<open>FeatureNotFound\<close> carries the dependency name that the
  message is formatted from, \<open>KeyError\<close> the missing key, \<open>TypeError\<close> and
  \<open>AttributeError\<close> the offending name; \<open>Raised\<close> is any exception raised by the
  body of a hook or of a computation routine.
\<close>

datatype error =
    TypeError string
  | FeatureNotFound string
  | KeyError string
  | IndexError
  | AttributeError string
  | Raised string

text \<open>\<open>DATA_IDXS\<close>: the slot of each channel in the per-object data array.\<close>

definition DATA_IDXS :: "(string \<times> nat) list" where
  "DATA_IDXS =
     [(''magnitude'', 0), (''time'', 1), (''error'', 2), (''magnitude2'', 3),
      (''aligned_magnitude'', 4), (''aligned_magnitude2'', 5), (''aligned_time'', 6),
      (''aligned_error'', 7), (''aligned_error2'', 8)]"

section \<open>Extractor classes\<close>

text \<open>
  \<open>ExtractorConf\<close> is the named tuple stored as \<open>cls._conf\<close>. Its \<open>data\<close>,
  \<open>dependencies\<close> and \<open>features\<close> fields are frozensets: each is given as the list of
  its elements in the order in which the frozenset iterates. \<open>params\<close> is the tuple of
  (name, default) pairs.
\<close>

record ExtractorConf =
  data :: "string list"
  dependencies :: "string list"
  params :: "(string \<times> pyval) list"
  features :: "string list"

text \<open>
  A dictionary is a finite map. \<open>dict_update\<close> is \<open>dict.update\<close> with an iterable of
  pairs (later pairs win), \<open>dict_of\<close> is \<open>dict(pairs)\<close>.
\<close>

definition dict_update :: "('k \<rightharpoonup> 'v) \<Rightarrow> ('k \<times> 'v) list \<Rightarrow> ('k \<rightharpoonup> 'v)" where
  "dict_update m kvs = foldl (\<lambda>m' kv. m'(fst kv \<mapsto> snd kv)) m kvs"

definition dict_of :: "('k \<times> 'v) list \<Rightarrow> ('k \<rightharpoonup> 'v)" where
  "dict_of kvs = dict_update Map.empty kvs"

text \<open>
  A method of an instance runs on the instance state \<open>'s\<close> and either returns a value or
  raises. An extractor class is its name, its \<open>_conf\<close> and its three overridable
  methods; \<open>fit\<close> receives its keyword arguments (name and value, in order).
\<close>

type_synonym ('t, 'a) py = "'t \<Rightarrow> (error + 'a) \<times> 't"

record 's extractor_class =
  cls_name :: string
  conf :: ExtractorConf
  setup_hook :: "('s, unit) py"
  fit :: "(string \<times> pyval) list \<Rightarrow> ('s, pyval) py"
  teardown :: "('s, unit) py"

text \<open>
  What \<open>register_extractor\<close> can be handed: the base class \<open>Extractor\<close> itself (which
  passes the subclass test but has no \<open>_conf\<close>), a proper subclass, or any other object.
\<close>

datatype 's pyobj =
    ExtractorBase
  | Subclass "'s extractor_class"
  | OtherObject pyval

section \<open>The register utility\<close>

type_synonym 's registry = "string \<rightharpoonup> 's extractor_class"

text \<open>
  The dependency loop of \<open>register_extractor\<close>: the first dependency (in iteration
  order) that is not a key of the registry raises.
\<close>

fun check_dependencies :: "'s registry \<Rightarrow> string list \<Rightarrow> error option" where
  "check_dependencies reg [] = None"
| "check_dependencies reg (d # ds) =
     (if d \<notin> dom reg then Some (FeatureNotFound d) else check_dependencies reg ds)"

text \<open>
  \<open>register_extractor\<close> reads and updates the module-level \<open>_extractors\<close>: the model
  takes the registry and returns the outcome together with the registry afterwards.
\<close>

fun register_extractor :: "'s registry \<Rightarrow> 's pyobj \<Rightarrow> (error + 's extractor_class) \<times> 's registry" where
  "register_extractor reg (OtherObject v) = (Inl (TypeError ''cls''), reg)"
| "register_extractor reg ExtractorBase = (Inl (AttributeError ''_conf''), reg)"
| "register_extractor reg (Subclass cls) =
     (case check_dependencies reg (dependencies (conf cls)) of
        Some e \<Rightarrow> (Inl e, reg)
      | None \<Rightarrow>
          (Inr cls, dict_update reg (map (\<lambda>f. (f, cls)) (features (conf cls)))))"

definition registered_extractors :: "'s registry \<Rightarrow> 's registry" where
  "registered_extractors reg = reg"

definition available_features :: "'s registry \<Rightarrow> string set" where
  "available_features reg = dom reg"

definition extractor_of :: "'s registry \<Rightarrow> string \<Rightarrow> error + 's extractor_class" where
  "extractor_of reg feature =
     (case reg feature of None \<Rightarrow> Inl (KeyError feature) | Some cls \<Rightarrow> Inr cls)"

section \<open>Extractor instances and the extraction protocol\<close>

text \<open>
  \<open>Extractor.__init__\<close>: the instance keeps, for each declared parameter, the value
  the space gives for it, or else its default. \<open>ns\<close> is the dictionary returned by
  \<open>space.params_by_features\<close>.
\<close>

record 's extractor =
  cls :: "'s extractor_class"
  self_params :: "(string \<times> pyval) list"

definition init_params :: "ExtractorConf \<Rightarrow> (string \<rightharpoonup> pyval) \<Rightarrow> (string \<times> pyval) list" where
  "init_params c ns =
     foldl (\<lambda>ps pd. AList.update (fst pd) (case ns (fst pd) of None \<Rightarrow> snd pd | Some v \<Rightarrow> v) ps)
       [] (params c)"

definition new_extractor :: "'s extractor_class \<Rightarrow> (string \<rightharpoonup> pyval) \<Rightarrow> 's extractor" where
  "new_extractor c ns = \<lparr>cls = c, self_params = init_params (conf c) ns\<rparr>"

text \<open>
  The keyword arguments are a dictionary whose iteration order matters for the error
  of a call, so they are kept as an association list with distinct keys.
  The comprehension over the dependencies raises \<open>KeyError\<close> at the first name that
  the \<open>dependencies\<close> argument lacks.
\<close>

fun dependency_kwargs ::
  "(string \<rightharpoonup> pyval) \<Rightarrow> string list \<Rightarrow> (string \<times> pyval) list \<Rightarrow> error + (string \<times> pyval) list" where
  "dependency_kwargs deps [] kw = Inr kw"
| "dependency_kwargs deps (k # ks) kw =
     (case deps k of
        None \<Rightarrow> Inl (KeyError k)
      | Some v \<Rightarrow> dependency_kwargs deps ks (AList.update k v kw))"

text \<open>
  The loop over the channels: \<open>DATA_IDXS[d]\<close> raises \<open>KeyError\<close> for a name outside the
  catalog and \<open>data[idx]\<close> raises \<open>IndexError\<close> when the data array has no such slot.
\<close>

fun data_kwargs ::
  "pyval list \<Rightarrow> string list \<Rightarrow> (string \<times> pyval) list \<Rightarrow> error + (string \<times> pyval) list" where
  "data_kwargs dat [] kw = Inr kw"
| "data_kwargs dat (d # ds) kw =
     (case map_of DATA_IDXS d of
        None \<Rightarrow> Inl (KeyError d)
      | Some idx \<Rightarrow>
          if idx < length dat then data_kwargs dat ds (AList.update d (dat ! idx) kw)
          else Inl IndexError)"

text \<open>
  Sequencing of methods, and \<open>try: ... finally: ...\<close>: the final block always runs;
  when it raises, its exception is the one that propagates, otherwise the outcome of
  the body (a value or an exception) stands.
\<close>

definition py_return :: "'a \<Rightarrow> ('t, 'a) py" where
  "py_return x t = (Inr x, t)"

definition py_bind :: "('t, 'a) py \<Rightarrow> ('a \<Rightarrow> ('t, 'b) py) \<Rightarrow> ('t, 'b) py" where
  "py_bind m f t = (case m t of (Inl e, t1) \<Rightarrow> (Inl e, t1) | (Inr x, t1) \<Rightarrow> f x t1)"

definition try_finally :: "('t, 'a) py \<Rightarrow> ('t, unit) py \<Rightarrow> ('t, 'a) py" where
  "try_finally body fin t =
     (case body t of
        (r, t1) \<Rightarrow> (case fin t1 of (Inl e, t2) \<Rightarrow> (Inl e, t2) | (Inr u, t2) \<Rightarrow> (r, t2)))"

text \<open>
  To count the calls of the hooks, a run carries, next to the instance state, the log
  of the methods entered so far; \<open>invoke\<close> is a method call that logs itself.
\<close>

datatype event = SetupCalled | FitCalled | TeardownCalled

definition invoke :: "event \<Rightarrow> ('s, 'a) py \<Rightarrow> ('s \<times> event list, 'a) py" where
  "invoke ev m t = (case m (fst t) of (r, s') \<Rightarrow> (r, (s', snd t @ [ev])))"

text \<open>
  The normalisation of the result of \<open>fit\<close>: a value without \<open>__iter__\<close> is wrapped
  in a 1-tuple. \<open>iterate\<close> lists the elements that iterating over a value yields.
\<close>

definition normalize_features :: "pyval \<Rightarrow> pyval" where
  "normalize_features res = (if \<not> has_iter res then PySeq [res] else res)"

fun iterate :: "pyval \<Rightarrow> pyval list" where
  "iterate (PySeq vs) = vs"
| "iterate v = []"

text \<open>
  \<open>Extractor.extract\<close>, in its two parts: the assembly of the keyword arguments
  (dependencies, then channels, then the parameters of the instance), which runs
  before the \<open>try\<close> statement, and the \<open>try\<close> statement itself.
\<close>

definition extract_kwargs ::
  "'s extractor \<Rightarrow> pyval list \<Rightarrow> (string \<rightharpoonup> pyval) \<Rightarrow> error + (string \<times> pyval) list" where
  "extract_kwargs self dat deps =
     (case dependency_kwargs deps (dependencies (conf (cls self))) [] of
        Inl e \<Rightarrow> Inl e
      | Inr kw0 \<Rightarrow>
          (case data_kwargs dat (data (conf (cls self))) kw0 of
             Inl e \<Rightarrow> Inl e
           | Inr kw1 \<Rightarrow>
               Inr (foldl (\<lambda>kw pv. AList.update (fst pv) (snd pv) kw) kw1 (self_params self))))"

definition extract_body ::
  "'s extractor \<Rightarrow> (string \<times> pyval) list \<Rightarrow> ('s \<times> event list, string \<rightharpoonup> pyval) py" where
  "extract_body self kwargs =
     py_bind (invoke SetupCalled (setup_hook (cls self))) (\<lambda>u.
     py_bind (invoke FitCalled (fit (cls self) kwargs)) (\<lambda>res.
     py_return (dict_of (zip (features (conf (cls self))) (iterate (normalize_features res))))))"

definition Extractor_extract ::
  "'s extractor \<Rightarrow> pyval list \<Rightarrow> (string \<rightharpoonup> pyval) \<Rightarrow> ('s \<times> event list, string \<rightharpoonup> pyval) py" where
  "Extractor_extract self dat deps t =
     (case extract_kwargs self dat deps of
        Inl e \<Rightarrow> (Inl e, t)
      | Inr kwargs \<Rightarrow>
          try_finally (extract_body self kwargs) (invoke TeardownCalled (teardown (cls self))) t)"

text \<open>
  A method defined with the positional parameters \<open>sig\<close> (after \<open>self\<close>, without
  defaults) and called with keyword arguments only: a keyword outside the signature, or
  else a parameter without a value, is a \<open>TypeError\<close>; otherwise the body runs on the
  bound arguments.
\<close>

definition call_with_kwargs ::
  "string list \<Rightarrow> ((string \<rightharpoonup> pyval) \<Rightarrow> ('s, 'a) py) \<Rightarrow> (string \<times> pyval) list \<Rightarrow> ('s, 'a) py" where
  "call_with_kwargs sig body kwargs s =
     (case filter (\<lambda>k. k \<notin> set sig) (map fst kwargs) of
        k # ks \<Rightarrow> (Inl (TypeError k), s)
      | [] \<Rightarrow>
          (case filter (\<lambda>p. p \<notin> set (map fst kwargs)) sig of
             p # ps \<Rightarrow> (Inl (TypeError p), s)
           | [] \<Rightarrow> body (map_of kwargs) s))"

text \<open>The hooks of the base class: \<open>setup\<close> and \<open>teardown\<close> are \<open>pass\<close>.\<close>

definition Extractor_setup :: "('s, unit) py" where
  "Extractor_setup = py_return ()"

definition Extractor_teardown :: "('s, unit) py" where
  "Extractor_teardown = py_return ()"

section \<open>The Color extractor\<close>

text \<open>
  \<open>np.mean\<close> of a value: the mean of all its numbers; a value that holds \<open>None\<close> has
  no mean.
\<close>

fun numbers :: "pyval \<Rightarrow> npfloat list option" where
  "numbers PyNone = None"
| "numbers (PyNum x) = Some [x]"
| "numbers (PySeq vs) =
     (if list_all (\<lambda>v. numbers v \<noteq> None) vs
      then Some (concat (map (\<lambda>v. case numbers v of None \<Rightarrow> [] | Some xs \<Rightarrow> xs) vs))
      else None)"

definition np_mean_of :: "pyval \<Rightarrow> error + npfloat" where
  "np_mean_of v = (case numbers v of None \<Rightarrow> Inl (TypeError ''mean'') | Some xs \<Rightarrow> Inr (np_mean xs))"

definition argument :: "(string \<rightharpoonup> pyval) \<Rightarrow> string \<Rightarrow> error + pyval" where
  "argument args name = (case args name of None \<Rightarrow> Inl (TypeError name) | Some v \<Rightarrow> Inr v)"

text \<open>
  \<open>Color.fit(self, magnitude, magnitude2)\<close> returns
  \<open>np.mean(magnitude) - np.mean(magnitude2)\<close>.
\<close>

definition Color_fit_body :: "(string \<rightharpoonup> pyval) \<Rightarrow> error + pyval" where
  "Color_fit_body args =
     (case argument args ''magnitude'' of
        Inl e \<Rightarrow> Inl e
      | Inr magnitude \<Rightarrow>
          (case argument args ''magnitude2'' of
             Inl e \<Rightarrow> Inl e
           | Inr magnitude2 \<Rightarrow>
               (case np_mean_of magnitude of
                  Inl e \<Rightarrow> Inl e
                | Inr m1 \<Rightarrow>
                    (case np_mean_of magnitude2 of
                       Inl e \<Rightarrow> Inl e
                     | Inr m2 \<Rightarrow> Inr (PyNum (np_subtract m1 m2))))))"

definition Color_fit :: "(string \<times> pyval) list \<Rightarrow> ('s, pyval) py" where
  "Color_fit = call_with_kwargs [''magnitude'', ''magnitude2''] (\<lambda>args s. (Color_fit_body args, s))"

text \<open>
  The class \<open>Color\<close> as the metaclass leaves it: \<open>data = ['magnitude', 'time',
  'magnitude2']\<close> and \<open>features = ["Color"]\<close> as frozensets, no dependencies and no
  parameters. The argument is the order in which the frozenset of the channels iterates.
\<close>

definition Color :: "string list \<Rightarrow> 's extractor_class" where
  "Color data_order =
     \<lparr>cls_name = ''Color'',
      conf = \<lparr>data = data_order, dependencies = [], params = [], features = [''Color'']\<rparr>,
      setup_hook = Extractor_setup,
      fit = Color_fit,
      teardown = Extractor_teardown\<rparr>"

text \<open>
  An extractor class that declares a dependency (none of the built-in classes does): it
  depends on the feature \<open>Mean\<close>.
\<close>

definition Dependent :: "unit extractor_class" where
  "Dependent =
     \<lparr>cls_name = ''Dependent'',
      conf = \<lparr>data = [''magnitude''], dependencies = [''Mean''], params = [],
              features = [''Dependent'']\<rparr>,
      setup_hook = Extractor_setup,
      fit = (\<lambda>kwargs s. (Inr (PyNum (Fin 0)), s)),
      teardown = Extractor_teardown\<rparr>"

section \<open>Properties of the registry\<close>

lemma dict_update_Nil: "dict_update m [] = m"
  by (simp add: dict_update_def)

lemma dict_update_Cons:
  "dict_update m (kv # kvs) = dict_update (m(fst kv \<mapsto> snd kv)) kvs"
  by (simp add: dict_update_def)

lemma dict_update_notin:
  "k \<notin> fst ` set kvs \<Longrightarrow> dict_update m kvs k = m k"
  by (induction kvs arbitrary: m) (simp_all add: dict_update_Nil dict_update_Cons)

lemma dict_update_same_value:
  "k \<in> fst ` set kvs \<Longrightarrow> \<forall>kv \<in> set kvs. snd kv = v \<Longrightarrow> dict_update m kvs k = Some v"
proof (induction kvs arbitrary: m)
  case Nil
  then show ?case by simp
next
  case (Cons kv kvs)
  show ?case
  proof (cases "k \<in> fst ` set kvs")
    case True
    with Cons show ?thesis by (simp add: dict_update_Cons)
  next
    case False
    with Cons.prems have "fst kv = k" and "snd kv = v" by auto
    with False show ?thesis
      by (simp add: dict_update_Cons dict_update_notin)
  qed
qed

lemma dom_dict_update: "dom (dict_update m kvs) = dom m \<union> fst ` set kvs"
  by (induction kvs arbitrary: m) (auto simp: dict_update_Nil dict_update_Cons)

lemma check_dependencies_None:
  "check_dependencies reg ds = None \<longleftrightarrow> set ds \<subseteq> dom reg"
  by (induction ds) auto

lemma check_dependencies_Some:
  "check_dependencies reg ds = Some e \<Longrightarrow> \<exists>d \<in> set ds. d \<notin> dom reg \<and> e = FeatureNotFound d"
  by (induction ds) (auto split: if_splits)

text \<open>
  Claim C1. When the registration of an extractor class succeeds, which is the case
  exactly when each of its declared dependencies is a key of the registry, it returns
  the class, and looking up any of the feature names declared by the class in the
  updated registry returns that class.
\<close>

theorem register_then_extractor_of:
  assumes "set (dependencies (conf c)) \<subseteq> dom reg"
  shows "fst (register_extractor reg (Subclass c)) = Inr c \<and>
         (\<forall>f \<in> set (features (conf c)).
            extractor_of (snd (register_extractor reg (Subclass c))) f = Inr c)"
proof -
  from assms have ok: "check_dependencies reg (dependencies (conf c)) = None"
    by (simp add: check_dependencies_None)
  have "dict_update reg (map (\<lambda>f. (f, c)) (features (conf c))) f = Some c"
    if "f \<in> set (features (conf c))" for f
    using that by (intro dict_update_same_value) (auto simp: image_iff)
  with ok show ?thesis
    by (simp add: extractor_of_def)
qed

theorem register_then_extractor_of_witness:
  "fst (register_extractor Map.empty
          (Subclass (Color [''magnitude'', ''time'', ''magnitude2''] :: unit extractor_class)))
     = Inr (Color [''magnitude'', ''time'', ''magnitude2'']) \<and>
   extractor_of
     (snd (register_extractor Map.empty
          (Subclass (Color [''magnitude'', ''time'', ''magnitude2''] :: unit extractor_class))))
     ''Color'' = Inr (Color [''magnitude'', ''time'', ''magnitude2''])"
  using register_then_extractor_of
    [of "Color [''magnitude'', ''time'', ''magnitude2''] :: unit extractor_class" Map.empty]
  by (simp add: Color_def)

text \<open>
  Claim C2. Registering an extractor class one of whose declared dependencies is not a
  key of the registry raises \<open>FeatureNotFound\<close> for a missing dependency and leaves the
  registry as it was.
\<close>

theorem register_missing_dependency:
  assumes "d \<in> set (dependencies (conf c))" and "d \<notin> dom reg"
  shows "(\<exists>d' \<in> set (dependencies (conf c)). d' \<notin> dom reg \<and>
            fst (register_extractor reg (Subclass c)) = Inl (FeatureNotFound d')) \<and>
         snd (register_extractor reg (Subclass c)) = reg"
proof -
  from assms have "check_dependencies reg (dependencies (conf c)) \<noteq> None"
    by (auto simp: check_dependencies_None)
  then obtain e where e: "check_dependencies reg (dependencies (conf c)) = Some e"
    by auto
  from check_dependencies_Some [OF e] e show ?thesis
    by auto
qed

theorem register_missing_dependency_witness:
  "fst (register_extractor Map.empty (Subclass Dependent)) = Inl (FeatureNotFound ''Mean'') \<and>
   snd (register_extractor Map.empty (Subclass Dependent)) = Map.empty"
  using register_missing_dependency [of "''Mean''" Dependent Map.empty]
  by (simp add: Dependent_def)

end
